theory Spec2Isabelle
  imports Complex_Main "HOL-Library.AList"
begin

section \<open>Values: strings and cells\<close>

text \<open>
  A Python \<open>str\<close> is a sequence of Unicode code points, so a string is a list of
  natural numbers (the cleaner for currency values names the euro sign, U+20AC, which no
  8-bit character holds). \<open>ustr\<close> reads an ASCII literal as such a string.
\<close>

type_synonym pystr = "nat list"

definition ustr :: "string \<Rightarrow> pystr" where
  "ustr s = map of_char s"

text \<open>
  A cell of a DataFrame. \<open>NA\<close> stands for every value that \<open>pd.isna\<close> accepts
  (\<open>None\<close>, \<open>NaN\<close>, \<open>NaT\<close>); \<open>Num\<close> is a finite number, read as the rational
  it denotes; \<open>PInf\<close> and \<open>NInf\<close> are the two infinite floats; \<open>Ts\<close> is a
  timestamp (nanoseconds since the epoch).
\<close>

datatype cell = NA | Str pystr | Num rat | PInf | NInf | Ts int

datatype dtype = Object | Float64 | Datetime64

datatype pyerr = AttributeError pystr | KeyError pystr | ServiceError pystr

fun message :: "pyerr \<Rightarrow> pystr" where
  "message (AttributeError m) = m"
| "message (KeyError m) = m"
| "message (ServiceError m) = m"

record table =
  columns :: "(pystr \<times> dtype) list"
  rows :: "cell list list"

text \<open>
  What the cleaner takes from CPython and pandas and what no file of the repository
  defines is a parameter of the model:
  \<^item> \<open>uni_decimal\<close>: whether a code point beyond ASCII is a decimal digit
    (Unicode category Nd), as the regular expression class \<open>\d\<close> asks;
  \<^item> \<open>uni_lower\<close>: \<open>str.lower\<close> on a string that is not pure ASCII;
  \<^item> \<open>uni_float\<close>: \<open>float\<close> on a string that is not pure ASCII
    (\<open>None\<close> is the \<open>ValueError\<close>);
  \<^item> \<open>str_of\<close>: \<open>str\<close> of a value that is not a string;
  \<^item> \<open>coerce_numeric\<close>: \<open>pd.to_numeric(errors='coerce')\<close> on one value that is
    neither missing nor a number already (\<open>NA\<close> when pandas cannot read it as a number);
  \<^item> \<open>to_datetime\<close>: \<open>pd.to_datetime(errors='coerce')\<close>, as the value it gives to
    one cell of a column (the column is an argument because pandas may settle on a format
    from its first values), and \<open>to_datetime_error\<close>: the exception it raises on a
    column, if any;
  \<^item> \<open>apply_dtype\<close>: the dtype pandas infers for the result of \<open>Series.apply\<close>;
  \<^item> \<open>exec_snippet\<close>: what \<open>exec\<close> of a code string does to the table it finds
    under the name \<open>df\<close> (up to the point where the snippet ends or raises).
\<close>

record pylib =
  uni_decimal :: "nat \<Rightarrow> bool"
  uni_lower :: "pystr \<Rightarrow> pystr"
  uni_float :: "pystr \<Rightarrow> cell option"
  str_of :: "cell \<Rightarrow> pystr"
  coerce_numeric :: "cell \<Rightarrow> cell"
  to_datetime :: "cell list \<Rightarrow> cell \<Rightarrow> cell"
  to_datetime_error :: "cell list \<Rightarrow> pyerr option"
  apply_dtype :: "cell list \<Rightarrow> dtype"
  exec_snippet :: "pystr \<Rightarrow> table \<Rightarrow> table"

fun isna :: "cell \<Rightarrow> bool" where
  "isna NA = True"
| "isna _ = False"

fun py_str :: "pylib \<Rightarrow> cell \<Rightarrow> pystr" where
  "py_str L (Str s) = s"
| "py_str L c = str_of L c"

definition is_ascii :: "pystr \<Rightarrow> bool" where
  "is_ascii s = list_all (\<lambda>c. c < 128) s"

definition ascii_digit :: "nat \<Rightarrow> bool" where
  "ascii_digit c = (48 \<le> c \<and> c \<le> 57)"

definition re_digit :: "pylib \<Rightarrow> nat \<Rightarrow> bool" where
  "re_digit L c = (if c < 128 then ascii_digit c else uni_decimal L c)"

definition ascii_lower :: "nat \<Rightarrow> nat" where
  "ascii_lower c = (if 65 \<le> c \<and> c \<le> 90 then c + 32 else c)"

definition py_lower :: "pylib \<Rightarrow> pystr \<Rightarrow> pystr" where
  "py_lower L s = (if is_ascii s then map ascii_lower s else uni_lower L s)"

definition py_isspace :: "nat \<Rightarrow> bool" where
  "py_isspace c = ((9 \<le> c \<and> c \<le> 13) \<or> (28 \<le> c \<and> c \<le> 32) \<or> c = 133 \<or> c = 160
      \<or> c = 5760 \<or> (8192 \<le> c \<and> c \<le> 8202) \<or> c = 8232 \<or> c = 8233 \<or> c = 8239
      \<or> c = 8287 \<or> c = 12288)"

definition py_strip :: "pystr \<Rightarrow> pystr" where
  "py_strip s = rev (dropWhile py_isspace (rev (dropWhile py_isspace s)))"

fun startswith :: "'a list \<Rightarrow> 'a list \<Rightarrow> bool" where
  "startswith s [] = True"
| "startswith [] (p # ps) = False"
| "startswith (c # cs) (p # ps) = (c = p \<and> startswith cs ps)"

fun py_in :: "'a list \<Rightarrow> 'a list \<Rightarrow> bool" where
  "py_in sub [] = (sub = [])"
| "py_in sub (c # cs) = (startswith (c # cs) sub \<or> py_in sub cs)"

section \<open>Reading a float from a string\<close>

text \<open>
  \<open>float(s)\<close> on an ASCII string: surrounding whitespace is dropped, then comes an
  optional sign and either \<open>inf\<close>, \<open>infinity\<close>, \<open>nan\<close> in any case or a decimal
  number with an optional fraction and exponent; digits may be grouped by single
  underscores. Anything else is a \<open>ValueError\<close>, here \<open>None\<close>.
\<close>

fun digitpart_rest :: "nat list \<Rightarrow> nat list \<Rightarrow> nat list \<times> nat list" where
  "digitpart_rest acc [] = (acc, [])"
| "digitpart_rest acc [c] = (if ascii_digit c then (acc @ [c], []) else (acc, [c]))"
| "digitpart_rest acc (c # d # r) =
     (if ascii_digit c then digitpart_rest (acc @ [c]) (d # r)
      else if c = 95 \<and> ascii_digit d then digitpart_rest (acc @ [d]) r
      else (acc, c # d # r))"

fun digitpart :: "nat list \<Rightarrow> (nat list \<times> nat list) option" where
  "digitpart [] = None"
| "digitpart (c # r) = (if ascii_digit c then Some (digitpart_rest [c] r) else None)"

definition digits_value :: "nat list \<Rightarrow> nat" where
  "digits_value ds = foldl (\<lambda>a d. 10 * a + (d - 48)) 0 ds"

fun sign_of :: "nat list \<Rightarrow> bool \<times> nat list" where
  "sign_of [] = (False, [])"
| "sign_of (c # r) = (if c = 45 then (True, r) else if c = 43 then (False, r) else (False, c # r))"

definition scale10 :: "rat \<Rightarrow> int \<Rightarrow> rat" where
  "scale10 x e = (if 0 \<le> e then x * 10 ^ nat e else x / 10 ^ nat (- e))"

fun mantissa :: "nat list \<Rightarrow> (nat list \<times> nat list \<times> nat list) option" where
  "mantissa s =
     (case digitpart s of
        Some (ip, r) \<Rightarrow>
          (case r of
             [] \<Rightarrow> Some (ip, [], [])
           | c # r' \<Rightarrow>
               if c = 46 then
                 (case digitpart r' of
                    Some (fp, r'') \<Rightarrow> Some (ip, fp, r'')
                  | None \<Rightarrow> Some (ip, [], r'))
               else Some (ip, [], c # r'))
      | None \<Rightarrow>
          (case s of
             [] \<Rightarrow> None
           | c # r' \<Rightarrow>
               if c = 46 then
                 (case digitpart r' of
                    Some (fp, r'') \<Rightarrow> Some ([], fp, r'')
                  | None \<Rightarrow> None)
               else None))"

fun exponent :: "nat list \<Rightarrow> int option" where
  "exponent [] = Some 0"
| "exponent (c # r) =
     (if c = 101 \<or> c = 69 then
        (case sign_of r of
           (neg, r') \<Rightarrow>
             (case digitpart r' of
                Some (ds, []) \<Rightarrow> Some (if neg then - int (digits_value ds) else int (digits_value ds))
              | _ \<Rightarrow> None))
      else None)"

definition float_number :: "nat list \<Rightarrow> rat option" where
  "float_number s =
     (case mantissa s of
        None \<Rightarrow> None
      | Some (ip, fp, r) \<Rightarrow>
          (case exponent r of
             None \<Rightarrow> None
           | Some e \<Rightarrow> Some (scale10 (of_nat (digits_value (ip @ fp))) (e - int (length fp)))))"

definition c_isspace :: "nat \<Rightarrow> bool" where
  "c_isspace c = ((9 \<le> c \<and> c \<le> 13) \<or> c = 32)"

definition ascii_float :: "pystr \<Rightarrow> cell option" where
  "ascii_float s =
     (let t = rev (dropWhile c_isspace (rev (dropWhile c_isspace s)));
          (neg, body) = sign_of t;
          low = map ascii_lower body
      in if low = ustr ''inf'' \<or> low = ustr ''infinity'' then Some (if neg then NInf else PInf)
         else if low = ustr ''nan'' then Some NA
         else (case float_number body of
                 None \<Rightarrow> None
               | Some x \<Rightarrow> Some (Num (if neg then - x else x))))"

definition py_float :: "pylib \<Rightarrow> pystr \<Rightarrow> cell option" where
  "py_float L s = (if is_ascii s then ascii_float s else uni_float L s)"

section \<open>The column cleaners for phone numbers and currency\<close>

text \<open>
  \<^verbatim>\<open>
  def format_phone(phone):
      if pd.isna(phone): return phone
      digits = re.sub(r'\D', '', str(phone))
      if len(digits) == 10:
          return f"({digits[:3]}) {digits[3:6]}-{digits[6:]}"
      return digits
  \<close>
\<close>

definition format_phone :: "pylib \<Rightarrow> cell \<Rightarrow> cell" where
  "format_phone L phone =
     (if isna phone then phone
      else let digits = filter (re_digit L) (py_str L phone)
           in if length digits = 10
              then Str ([40] @ take 3 digits @ [41, 32] @ take 3 (drop 3 digits) @ [45] @ drop 6 digits)
              else Str digits)"

text \<open>
  \<^verbatim>\<open>
  def clean_money(value):
      if pd.isna(value): return value
      cleaned = re.sub(r'[$,<euro><pound><yen>]', '', str(value))
      try: return float(cleaned)
      except: return value
  \<close>
  The five symbols are U+0024, U+002C, U+20AC, U+00A3 and U+00A5.
\<close>

definition currency_symbol :: "nat \<Rightarrow> bool" where
  "currency_symbol c = (c = 36 \<or> c = 44 \<or> c = 8364 \<or> c = 163 \<or> c = 165)"

definition clean_money :: "pylib \<Rightarrow> cell \<Rightarrow> cell" where
  "clean_money L v =
     (if isna v then v
      else let cleaned = filter (\<lambda>c. \<not> currency_symbol c) (py_str L v)
           in case py_float L cleaned of
                Some x \<Rightarrow> x
              | None \<Rightarrow> v)"

section \<open>Comparisons against a double-precision product\<close>

text \<open>
  The cleaner decides by tests of the form \<open>count > n * 0.7\<close>, where \<open>count\<close> and
  \<open>n\<close> are integers and \<open>0.7\<close> is a double. The product is rounded to the nearest
  double (ties to even), which moves some thresholds: \<open>90 * 0.7\<close> is
  \<open>62.99999999999999\<close>. The doubles \<open>0.7\<close> and \<open>0.8\<close> are \<open>c07 / 2^52\<close> and
  \<open>c08 / 2^52\<close>; \<open>round53\<close> rounds a natural number to 53 significant bits, so that
  \<open>round53 (round53 n * c) / 2^52\<close> is the double that \<open>n * c\<close> evaluates to.
\<close>

fun bitlen :: "nat \<Rightarrow> nat" where
  "bitlen n = (if n = 0 then 0 else Suc (bitlen (n div 2)))"

declare bitlen.simps [simp del]

definition round53 :: "nat \<Rightarrow> nat" where
  "round53 m =
     (let b = bitlen m
      in if b \<le> 53 then m
         else let s = b - 53; q = m div 2 ^ s; r = m mod 2 ^ s; h = 2 ^ (s - 1)
              in (if h < r \<or> (r = h \<and> odd q) then q + 1 else q) * 2 ^ s)"

definition c07 :: nat where
  "c07 = 3152519739159347"

definition c08 :: nat where
  "c08 = 3602879701896397"

definition exceeds_product :: "nat \<Rightarrow> nat \<Rightarrow> nat \<Rightarrow> bool" where
  "exceeds_product count n c = (round53 (round53 n * c) < round53 count * 2 ^ 52)"

section \<open>Tables\<close>

text \<open>
  A table is kept row by row, under a header of column names and dtypes. The loops of the
  cleaner that run over \<open>df.columns\<close> and read \<open>df[col]\<close> are loops over the column
  positions here, which is the same thing as long as the names are distinct.
\<close>

definition nrows :: "table \<Rightarrow> nat" where
  "nrows df = length (rows df)"

definition ncols :: "table \<Rightarrow> nat" where
  "ncols df = length (columns df)"

definition well_formed :: "table \<Rightarrow> bool" where
  "well_formed df = (list_all (\<lambda>r. length r = ncols df) (rows df) \<and> distinct (map fst (columns df)))"

definition df_empty :: "table \<Rightarrow> bool" where
  "df_empty df = (nrows df = 0 \<or> ncols df = 0)"

definition column_cells :: "table \<Rightarrow> nat \<Rightarrow> cell list" where
  "column_cells df i = map (\<lambda>r. r ! i) (rows df)"

definition column_dtype :: "table \<Rightarrow> nat \<Rightarrow> dtype" where
  "column_dtype df i = snd (columns df ! i)"

definition column_name :: "table \<Rightarrow> nat \<Rightarrow> pystr" where
  "column_name df i = fst (columns df ! i)"

definition set_column :: "table \<Rightarrow> nat \<Rightarrow> dtype \<Rightarrow> cell list \<Rightarrow> table" where
  "set_column df i dt vals =
     df\<lparr>columns := (columns df)[i := (column_name df i, dt)],
        rows := map (\<lambda>(r, v). r[i := v]) (zip (rows df) vals)\<rparr>"

definition notna :: "cell list \<Rightarrow> cell list" where
  "notna cs = filter (\<lambda>c. \<not> isna c) cs"

fun to_numeric :: "pylib \<Rightarrow> cell \<Rightarrow> cell" where
  "to_numeric L NA = NA"
| "to_numeric L (Num x) = Num x"
| "to_numeric L PInf = PInf"
| "to_numeric L NInf = NInf"
| "to_numeric L c = coerce_numeric L c"

subsection \<open>The three table-level cleaners\<close>

text \<open>\<open>df.dropna(how='all')\<close>: a row stays when one of its cells is not missing.\<close>

definition remove_empty_rows :: "table \<Rightarrow> table" where
  "remove_empty_rows df = df\<lparr>rows := filter (\<lambda>r. list_ex (\<lambda>c. \<not> isna c) r) (rows df)\<rparr>"

text \<open>
  \<open>df.duplicated()\<close> marks every row that equals an earlier one; on an empty frame
  (no rows or no columns) pandas returns an empty mask, and \<open>drop_duplicates\<close> returns
  the frame as it is.
\<close>

fun duplicated_from :: "'a list \<Rightarrow> 'a list \<Rightarrow> bool list" where
  "duplicated_from seen [] = []"
| "duplicated_from seen (r # rs) = (r \<in> set seen) # duplicated_from (r # seen) rs"

definition duplicated :: "table \<Rightarrow> bool list" where
  "duplicated df = (if df_empty df then [] else duplicated_from [] (rows df))"

definition count_true :: "bool list \<Rightarrow> nat" where
  "count_true bs = length (filter (\<lambda>b. b) bs)"

definition remove_duplicates :: "table \<Rightarrow> table" where
  "remove_duplicates df =
     (if df_empty df then df
      else df\<lparr>rows := map snd (filter (\<lambda>(d, r). \<not> d) (zip (duplicated df) (rows df)))\<rparr>)"

text \<open>
  \<^verbatim>\<open>
  for col in df.columns:
      if df[col].dtype == 'object':
          converted = pd.to_numeric(df[col], errors='coerce')
          if converted.notna().sum() > len(df) * 0.7:
              df[col] = converted
  \<close>
\<close>

definition convert_column :: "pylib \<Rightarrow> nat \<Rightarrow> table \<Rightarrow> table" where
  "convert_column L i df =
     (if column_dtype df i = Object
      then let converted = map (to_numeric L) (column_cells df i)
           in if exceeds_product (length (notna converted)) (nrows df) c07
              then set_column df i Float64 converted
              else df
      else df)"

definition basic_type_conversion :: "pylib \<Rightarrow> table \<Rightarrow> table" where
  "basic_type_conversion L df = fold (convert_column L) [0..<ncols df] df"

definition basic_cleaning :: "pylib \<Rightarrow> table \<Rightarrow> table" where
  "basic_cleaning L df = basic_type_conversion L (remove_duplicates (remove_empty_rows df))"

section \<open>The quality score\<close>

text \<open>
  The arithmetic of the score is done on Python floats; the model does it on rationals,
  the numbers those floats stand for. \<open>py_round1\<close> is \<open>round(x, 1)\<close>: to the nearest
  tenth, a tie going to the even neighbour.
\<close>

definition round_half_even :: "rat \<Rightarrow> int" where
  "round_half_even x =
     (let f = \<lfloor>x\<rfloor>; d = x - of_int f
      in if d < 1 / 2 then f else if 1 / 2 < d then f + 1 else if even f then f else f + 1)"

definition py_round1 :: "rat \<Rightarrow> rat" where
  "py_round1 x = of_int (round_half_even (x * 10)) / 10"

definition null_cells :: "table \<Rightarrow> nat" where
  "null_cells df = sum_list (map (\<lambda>r. length (filter isna r)) (rows df))"

definition total_cells :: "table \<Rightarrow> nat" where
  "total_cells df = nrows df * ncols df"

definition completeness :: "table \<Rightarrow> rat" where
  "completeness df = (of_nat (total_cells df) - of_nat (null_cells df)) / of_nat (total_cells df)"

definition uniqueness :: "table \<Rightarrow> rat" where
  "uniqueness df =
     (if 0 < nrows df then 1 - of_nat (count_true (duplicated df)) / of_nat (nrows df) else 1)"

definition column_consistency :: "pylib \<Rightarrow> table \<Rightarrow> nat \<Rightarrow> rat" where
  "column_consistency L df i =
     (if column_dtype df i = Object
      then let sample_values = take 20 (notna (column_cells df i))
           in if 0 < length sample_values
              then let numeric_count = length (notna (map (to_numeric L) sample_values))
                   in if exceeds_product numeric_count (length sample_values) c08
                      then 1 / 2 else 1
              else 1
      else 1)"

definition consistency :: "pylib \<Rightarrow> table \<Rightarrow> rat" where
  "consistency L df =
     (if 0 < ncols df
      then sum_list (map (column_consistency L df) [0..<ncols df]) / of_nat (ncols df)
      else 1)"

definition column_validity :: "pylib \<Rightarrow> table \<Rightarrow> nat \<Rightarrow> rat" where
  "column_validity L df i =
     (if column_dtype df i = Object
      then let max_length = fold max (map (\<lambda>c. length (py_str L c)) (column_cells df i)) 0
           in if max_length < 1000 then 1 else 1 / 2
      else 1)"

definition validity :: "pylib \<Rightarrow> table \<Rightarrow> rat" where
  "validity L df =
     (if 0 < ncols df
      then sum_list (map (column_validity L df) [0..<ncols df]) / of_nat (ncols df)
      else 1)"

definition final_score :: "pylib \<Rightarrow> table \<Rightarrow> rat" where
  "final_score L df =
     (completeness df * (4 / 10) + uniqueness df * (3 / 10) + consistency L df * (2 / 10)
        + validity L df * (1 / 10)) * 100"

definition calculate_quality_score :: "pylib \<Rightarrow> table \<Rightarrow> rat" where
  "calculate_quality_score L df =
     (if df_empty df then 0 else py_round1 (max 0 (min 100 (final_score L df))))"

section \<open>The issue detector\<close>

text \<open>
  \<open>df[col].isnull().sum()\<close> is a numpy integer, and numpy's division of such a number
  by zero does not raise: it yields \<open>nan\<close> for \<open>0 / 0\<close> and \<open>inf\<close> otherwise (with a
  warning). A comparison with \<open>nan\<close> is false.
\<close>

datatype float64 = NaN | Finite rat | Infinity

definition np_true_divide :: "nat \<Rightarrow> nat \<Rightarrow> float64" where
  "np_true_divide a b =
     (if b = 0 then (if a = 0 then NaN else Infinity) else Finite (of_nat a / of_nat b))"

fun times :: "float64 \<Rightarrow> rat \<Rightarrow> float64" where
  "times (Finite x) k = Finite (x * k)"
| "times f k = f"

fun greater :: "float64 \<Rightarrow> rat \<Rightarrow> bool" where
  "greater (Finite x) k = (k < x)"
| "greater Infinity k = True"
| "greater NaN k = False"

datatype issue =
    EmptyRows nat
  | DuplicateRows nat
  | HighNull pystr float64
  | NumericAsText pystr

definition null_issue :: "table \<Rightarrow> nat \<Rightarrow> issue list" where
  "null_issue df i =
     (let null_percentage = times (np_true_divide (length (filter isna (column_cells df i))) (nrows df)) 100
      in if greater null_percentage 50 then [HighNull (column_name df i) null_percentage] else [])"

definition type_issue :: "pylib \<Rightarrow> table \<Rightarrow> nat \<Rightarrow> issue list" where
  "type_issue L df i =
     (if column_dtype df i = Object
      then let sample_values = take 10 (notna (column_cells df i))
           in if 0 < length sample_values
              then let numeric_count = length (notna (map (to_numeric L) sample_values))
                   in if exceeds_product numeric_count (length sample_values) c07
                      then [NumericAsText (column_name df i)] else []
              else []
      else [])"

definition detect_issues :: "pylib \<Rightarrow> table \<Rightarrow> issue list" where
  "detect_issues L df =
     (let empty_rows = length (filter (list_all isna) (rows df));
          duplicate_rows = count_true (duplicated df)
      in (if 0 < empty_rows then [EmptyRows empty_rows] else [])
         @ (if 0 < duplicate_rows then [DuplicateRows duplicate_rows] else [])
         @ concat (map (null_issue df) [0..<ncols df])
         @ concat (map (type_issue L df) [0..<ncols df]))"

section \<open>The text-generation service\<close>

text \<open>
  The two calls of \<open>groq_client.chat.completions.create\<close> differ in their prompt: one
  carries a column name and its first three values, the other the shape of the table and
  the user's instruction. A client maps a prompt to the text
  \<open>response.choices[0].message.content\<close>, or to the exception raised on the way to it.
  \<open>self.groq_client\<close> is \<open>None\<close> when no API key is configured.
\<close>

datatype prompt =
    ColumnPrompt pystr "cell list"
  | CodePrompt nat "pystr list" pystr

type_synonym groq = "prompt \<Rightarrow> pyerr + pystr"

subsection \<open>Column classification\<close>

text \<open>
  \<^verbatim>\<open>
  for col in df.columns:
      if df[col].dtype == 'object':
          sample_values = df[col].dropna().head(3).tolist()
          if not sample_values: continue
          try:
              response = self.groq_client.chat.completions.create(...)
              col_type = response.choices[0].message.content.strip().lower()
              column_types[col] = col_type
          except Exception as e:
              column_types[col] = 'text'
  \<close>
  The dictionary \<open>column_types\<close> is an association list in insertion order.
\<close>

definition analyze_column ::
    "pylib \<Rightarrow> groq \<Rightarrow> table \<Rightarrow> nat \<Rightarrow> (pystr \<times> pystr) list \<Rightarrow> (pystr \<times> pystr) list" where
  "analyze_column L chat df i column_types =
     (if column_dtype df i = Object
      then let sample_values = take 3 (notna (column_cells df i))
           in if sample_values = [] then column_types
              else (case chat (ColumnPrompt (column_name df i) sample_values) of
                      Inr content \<Rightarrow>
                        AList.update (column_name df i) (py_lower L (py_strip content)) column_types
                    | Inl e \<Rightarrow> AList.update (column_name df i) (ustr ''text'') column_types)
      else column_types)"

definition analyze_columns_with_llm ::
    "pylib \<Rightarrow> groq option \<Rightarrow> table \<Rightarrow> (pystr \<times> pystr) list" where
  "analyze_columns_with_llm L groq_client df =
     (case groq_client of
        None \<Rightarrow> []
      | Some chat \<Rightarrow> fold (analyze_column L chat df) [0..<ncols df] [])"

text \<open>
  The prompt names the eight labels the service is asked to choose from. \<open>classified\<close>
  says that the loop puts a question for a column, \<open>label_of\<close> is the label the
  column then gets.
\<close>

definition labels :: "pystr list" where
  "labels = [ustr ''email'', ustr ''phone'', ustr ''date'', ustr ''name'', ustr ''address'',
             ustr ''currency'', ustr ''url'', ustr ''text'']"

definition classified :: "table \<Rightarrow> nat \<Rightarrow> bool" where
  "classified df i = (column_dtype df i = Object \<and> notna (column_cells df i) \<noteq> [])"

definition label_of :: "pylib \<Rightarrow> groq \<Rightarrow> table \<Rightarrow> nat \<Rightarrow> pystr" where
  "label_of L chat df i =
     (case chat (ColumnPrompt (column_name df i) (take 3 (notna (column_cells df i)))) of
        Inr content \<Rightarrow> py_lower L (py_strip content)
      | Inl e \<Rightarrow> ustr ''text'')"

subsection \<open>The column cleaners\<close>

text \<open>
  \<open>series.str.lower().str.strip()\<close>: the \<open>.str\<close> accessor of pandas raises an
  \<open>AttributeError\<close> on a column whose values are not strings (a column that holds a
  string, or nothing but missing values, is accepted); under it a value that is not a
  string becomes missing.
\<close>

fun is_str :: "cell \<Rightarrow> bool" where
  "is_str (Str s) = True"
| "is_str _ = False"

fun str_method :: "(pystr \<Rightarrow> pystr) \<Rightarrow> cell \<Rightarrow> cell" where
  "str_method f (Str s) = Str (f s)"
| "str_method f _ = NA"

definition str_accessor :: "cell list \<Rightarrow> pyerr + cell list" where
  "str_accessor series =
     (if list_ex is_str series \<or> list_all isna series then Inr series
      else Inl (AttributeError (ustr ''Can only use .str accessor with string values!'')))"

definition clean_emails :: "pylib \<Rightarrow> cell list \<Rightarrow> pyerr + dtype \<times> cell list" where
  "clean_emails L series =
     (case str_accessor series of
        Inl e \<Rightarrow> Inl e
      | Inr s \<Rightarrow>
          (case str_accessor (map (str_method (py_lower L)) s) of
             Inl e \<Rightarrow> Inl e
           | Inr lowered \<Rightarrow> Inr (Object, map (str_method py_strip) lowered)))"

definition clean_phone_numbers :: "pylib \<Rightarrow> cell list \<Rightarrow> pyerr + dtype \<times> cell list" where
  "clean_phone_numbers L series =
     (let cleaned = map (format_phone L) series in Inr (apply_dtype L cleaned, cleaned))"

definition clean_dates :: "pylib \<Rightarrow> cell list \<Rightarrow> pyerr + dtype \<times> cell list" where
  "clean_dates L series =
     (case to_datetime_error L series of
        Some e \<Rightarrow> Inl e
      | None \<Rightarrow> Inr (Datetime64, map (to_datetime L series) series))"

definition clean_currency :: "pylib \<Rightarrow> cell list \<Rightarrow> pyerr + dtype \<times> cell list" where
  "clean_currency L series =
     (let cleaned = map (clean_money L) series in Inr (apply_dtype L cleaned, cleaned))"

subsection \<open>Instructions in natural language\<close>

text \<open>
  \<^verbatim>\<open>
  try:
      response = self.groq_client.chat.completions.create(...)
      code = response.choices[0].message.content.strip()
      if any(dangerous in code.lower()
             for dangerous in ['import', 'exec', 'eval', 'open', 'file']):
          return df
      exec(code)
      return df
  except Exception as e:
      return df
  \<close>
  \<open>exec\<close> cannot rebind the local name \<open>df\<close>, but the snippet may change the frame
  itself; whatever it has done when it ends or raises is what the caller gets back.
\<close>

definition dangerous :: "pystr list" where
  "dangerous = [ustr ''import'', ustr ''exec'', ustr ''eval'', ustr ''open'', ustr ''file'']"

definition is_dangerous :: "pylib \<Rightarrow> pystr \<Rightarrow> bool" where
  "is_dangerous L code = list_ex (\<lambda>d. py_in d (py_lower L code)) dangerous"

definition apply_user_instructions ::
    "pylib \<Rightarrow> groq option \<Rightarrow> table \<Rightarrow> pystr \<Rightarrow> table" where
  "apply_user_instructions L groq_client df instructions =
     (case groq_client of
        None \<Rightarrow> df
      | Some chat \<Rightarrow>
          (case chat (CodePrompt (nrows df) (map fst (columns df)) instructions) of
             Inl e \<Rightarrow> df
           | Inr content \<Rightarrow>
               let code = py_strip content
               in if is_dangerous L code then df else exec_snippet L code df))"

section \<open>The pipeline\<close>

datatype operation =
    RemovedEmptyRows
  | RemovedDuplicates
  | BasicTypeConversion
  | CleanedEmails pystr
  | StandardizedPhones pystr
  | StandardizedDates pystr
  | CleanedCurrency pystr
  | AppliedCustomInstructions pystr

record report =
  original_rows :: nat
  original_columns :: nat
  operations_performed :: "operation list"
  data_quality_score_before :: rat
  issues_found :: "issue list"
  column_analysis :: "(pystr \<times> pystr) list option"
  llm_error :: "pystr option"
  final_rows :: nat
  final_columns :: nat
  data_quality_score_after :: rat
  rows_removed :: int

record result =
  cleaned_data :: table
  report :: report

text \<open>
  The \<open>if\<close>/\<open>elif\<close> chain over the label of a column: the cleaner to run and the
  line it leaves in the report. Any other label runs nothing.
\<close>

definition cleaner_for ::
    "pylib \<Rightarrow> pystr \<Rightarrow> ((cell list \<Rightarrow> pyerr + dtype \<times> cell list) \<times> (pystr \<Rightarrow> operation)) option" where
  "cleaner_for L col_type =
     (if col_type = ustr ''email'' then Some (clean_emails L, CleanedEmails)
      else if col_type = ustr ''phone'' then Some (clean_phone_numbers L, StandardizedPhones)
      else if col_type = ustr ''date'' then Some (clean_dates L, StandardizedDates)
      else if col_type = ustr ''currency'' then Some (clean_currency L, CleanedCurrency)
      else None)"

fun index_of :: "'a \<Rightarrow> 'a list \<Rightarrow> nat option" where
  "index_of x [] = None"
| "index_of x (y # ys) = (if x = y then Some 0 else map_option Suc (index_of x ys))"

text \<open>
  The loop \<open>for col, col_type in column_analysis.items()\<close>. An exception leaves the
  loop with the table and the report as they are at that moment: the columns cleaned so
  far stay cleaned, and their lines stay in the report.
\<close>

fun clean_columns ::
    "pylib \<Rightarrow> (pystr \<times> pystr) list \<Rightarrow> table \<times> operation list
       \<Rightarrow> (table \<times> operation list) \<times> pyerr option" where
  "clean_columns L [] (df, ops) = ((df, ops), None)"
| "clean_columns L ((col, col_type) # rest) (df, ops) =
     (case cleaner_for L col_type of
        None \<Rightarrow> clean_columns L rest (df, ops)
      | Some (cleaner, line) \<Rightarrow>
          (case index_of col (map fst (columns df)) of
             None \<Rightarrow> ((df, ops), Some (KeyError col))
           | Some i \<Rightarrow>
               (case cleaner (column_cells df i) of
                  Inl e \<Rightarrow> ((df, ops), Some e)
                | Inr (dt, cleaned) \<Rightarrow>
                    clean_columns L rest (set_column df i dt cleaned, ops @ [line col]))))"

text \<open>
  The block under \<open>if not basic_only and self.groq_client\<close>, with its
  \<open>try\<close>/\<open>except Exception as e: cleaning_report['llm_error'] = str(e)\<close>. It returns
  the table, the lines of the report, the classification and the error message.
\<close>

definition llm_features ::
    "pylib \<Rightarrow> groq option \<Rightarrow> pystr \<Rightarrow> table \<times> operation list
       \<Rightarrow> (table \<times> operation list) \<times> (pystr \<times> pystr) list option \<times> pystr option" where
  "llm_features L groq_client user_instructions st =
     (let analysis = analyze_columns_with_llm L groq_client (fst st)
      in case clean_columns L analysis st of
           (st', Some e) \<Rightarrow> (st', Some analysis, Some (message e))
         | ((df, ops), None) \<Rightarrow>
             if user_instructions \<noteq> []
             then ((apply_user_instructions L groq_client df user_instructions,
                    ops @ [AppliedCustomInstructions user_instructions]),
                   Some analysis, None)
             else ((df, ops), Some analysis, None))"

definition clean_data :: "pylib \<Rightarrow> groq option \<Rightarrow> table \<Rightarrow> pystr \<Rightarrow> bool \<Rightarrow> result" where
  "clean_data L groq_client df0 user_instructions basic_only =
     (let initial_quality = calculate_quality_score L df0;
          initial_issues = detect_issues L df0;
          df1 = remove_empty_rows df0;
          df2 = remove_duplicates df1;
          df3 = basic_type_conversion L df2;
          ops = [RemovedEmptyRows, RemovedDuplicates, BasicTypeConversion];
          ((df, ops'), analysis, err) =
             (if \<not> basic_only \<and> groq_client \<noteq> None
              then llm_features L groq_client user_instructions (df3, ops)
              else ((df3, ops), None, None))
      in \<lparr>cleaned_data = df,
          report = \<lparr>original_rows = nrows df0,
                    original_columns = ncols df0,
                    operations_performed = ops',
                    data_quality_score_before = initial_quality,
                    issues_found = initial_issues,
                    column_analysis = analysis,
                    llm_error = err,
                    final_rows = nrows df,
                    final_columns = ncols df,
                    data_quality_score_after = calculate_quality_score L df,
                    rows_removed = int (nrows df0) - int (nrows df)\<rparr>\<rparr>)"

section \<open>An instance of the library\<close>

text \<open>
  To run the model on examples the parameters need values. \<open>plain_lib\<close> serves tables
  of ASCII strings and missing values: no code point beyond ASCII counts as a digit,
  \<open>to_numeric\<close> reads a string as \<open>float\<close> does, every date is unreadable, and the
  generated snippets do nothing.
\<close>

definition plain_lib :: pylib where
  "plain_lib =
     \<lparr>uni_decimal = (\<lambda>c. False),
      uni_lower = (\<lambda>s. s),
      uni_float = (\<lambda>s. None),
      str_of = (\<lambda>c. ustr ''nan''),
      coerce_numeric = (\<lambda>c. case c of Str s \<Rightarrow> (case ascii_float s of Some x \<Rightarrow> x | None \<Rightarrow> NA) | _ \<Rightarrow> NA),
      to_datetime = (\<lambda>series c. NA),
      to_datetime_error = (\<lambda>series. None),
      apply_dtype = (\<lambda>series. Object),
      exec_snippet = (\<lambda>code df. df)\<rparr>"

text \<open>Tables and services for the examples.\<close>

definition empty_frame :: table where
  "empty_frame = \<lparr>columns = [(ustr ''a'', Object)], rows = []\<rparr>"


definition one_number :: table where
  "one_number = \<lparr>columns = [(ustr ''n'', Float64)], rows = [[Num 1]]\<rparr>"

definition one_text :: table where
  "one_text = \<lparr>columns = [(ustr ''a'', Object)], rows = [[Str (ustr ''x@y.z'')]]\<rparr>"

text \<open>
  Three services: one that answers every prompt with \<open>import os\<close>, one that cannot be
  reached, and one that answers every prompt with the word \<open>Number\<close> between blanks.
\<close>

definition import_snippet :: groq where
  "import_snippet p = Inr (ustr ''import os'')"

definition unreachable :: groq where
  "unreachable p = Inl (ServiceError (ustr ''connection refused''))"

definition number_reply :: groq where
  "number_reply p = Inr (ustr '' Number '')"

section \<open>Properties of the cell cleaners\<close>


text \<open>
  C8. The phone cleaner returns a missing value as it is. For any other value it keeps
  the decimal digits of the value's text, in order; ten digits are laid out as
  \<open>(DDD) DDD-DDDD\<close>, any other number of digits is returned as the bare digit string.
  \<open>555-123-4567\<close> becomes \<open>(555) 123-4567\<close>, and \<open>12345\<close> stays \<open>12345\<close>.
\<close>

theorem format_phone_spec:
  "(let digits = filter (re_digit L) (py_str L v)
    in (isna v \<longrightarrow> format_phone L v = v)
     \<and> (\<not> isna v \<and> length digits = 10 \<longrightarrow>
          format_phone L v =
            Str (ustr ''('' @ take 3 digits @ ustr '') '' @ take 3 (drop 3 digits) @ ustr ''-''
                 @ drop 6 digits))
     \<and> (\<not> isna v \<and> length digits \<noteq> 10 \<longrightarrow> format_phone L v = Str digits))
   \<and> format_phone L (Str (ustr ''555-123-4567'')) = Str (ustr ''(555) 123-4567'')
   \<and> format_phone L (Str (ustr ''12345'')) = Str (ustr ''12345'')"
proof -
  have examples:
    "format_phone L (Str (ustr ''555-123-4567'')) = Str (ustr ''(555) 123-4567'')"
    "format_phone L (Str (ustr ''12345'')) = Str (ustr ''12345'')"
    by (simp_all add: format_phone_def ustr_def re_digit_def ascii_digit_def)
  have general:
    "let digits = filter (re_digit L) (py_str L v)
     in (isna v \<longrightarrow> format_phone L v = v)
      \<and> (\<not> isna v \<and> length digits = 10 \<longrightarrow>
           format_phone L v =
             Str (ustr ''('' @ take 3 digits @ ustr '') '' @ take 3 (drop 3 digits) @ ustr ''-''
                  @ drop 6 digits))
      \<and> (\<not> isna v \<and> length digits \<noteq> 10 \<longrightarrow> format_phone L v = Str digits)"
    by (simp add: format_phone_def Let_def ustr_def)
  from general examples show ?thesis by blast
qed

theorem format_phone_spec_witness:
  "format_phone plain_lib NA = NA
   \<and> format_phone plain_lib (Str (ustr ''+1 (555) 123 4567'')) = Str (ustr ''15551234567'')
   \<and> format_phone plain_lib (Str (ustr ''555.123.4567'')) = Str (ustr ''(555) 123-4567'')"
proof -
  have a: "filter (re_digit plain_lib) (py_str plain_lib (Str (ustr ''+1 (555) 123 4567'')))
             = ustr ''15551234567''"
    by (simp add: ustr_def re_digit_def ascii_digit_def)
  have b: "filter (re_digit plain_lib) (py_str plain_lib (Str (ustr ''555.123.4567'')))
             = ustr ''5551234567''"
    by (simp add: ustr_def re_digit_def ascii_digit_def)
  have c: "length (ustr ''15551234567'') \<noteq> 10" "length (ustr ''5551234567'') = 10"
    by (simp_all add: ustr_def)
  show ?thesis
    using format_phone_spec [of plain_lib NA]
      format_phone_spec [of plain_lib "Str (ustr ''+1 (555) 123 4567'')"]
      format_phone_spec [of plain_lib "Str (ustr ''555.123.4567'')"]
    unfolding Let_def a b using c by (simp add: ustr_def)
qed



section \<open>Properties of the issue detector\<close>

text \<open>
  C10 (as the code has it). On a table without rows the issue detector does not fail: the
  missing count of every column is the numpy integer 0, its quotient by the row count 0
  is \<open>nan\<close>, the test \<open>nan > 50\<close> is false, and no other check finds anything, so
  the detector returns the empty list of diagnostics.
\<close>

theorem detect_issues_no_rows:
  "nrows df = 0 \<Longrightarrow> detect_issues L df = []"
  by (auto simp: detect_issues_def nrows_def duplicated_def df_empty_def count_true_def
      null_issue_def type_issue_def column_cells_def np_true_divide_def notna_def Let_def)

theorem detect_issues_no_rows_witness:
  "nrows empty_frame = 0 \<and> detect_issues plain_lib empty_frame = []"
  using detect_issues_no_rows [of empty_frame plain_lib]
  by (simp add: empty_frame_def nrows_def)

text \<open>
  The claim that the detector fails on every table with a column and no rows is false
  for the table with the single text column \<open>a\<close> and no rows.
\<close>

theorem detect_issues_zero_rows_counterexample:
  "ncols empty_frame = 1 \<and> nrows empty_frame = 0 \<and> np_true_divide 0 0 = NaN
   \<and> null_issue empty_frame 0 = []
   \<and> detect_issues plain_lib empty_frame = []"
  by (simp add: empty_frame_def detect_issues_def nrows_def ncols_def duplicated_def df_empty_def
      count_true_def null_issue_def type_issue_def column_cells_def np_true_divide_def notna_def
      Let_def column_dtype_def)

section \<open>Properties of the quality score\<close>










section \<open>Properties of the pipeline\<close>

text \<open>The two shapes of a run: with the enhancement block and without it.\<close>

lemma clean_data_enhanced:
  "clean_data L (Some chat) df0 instructions False =
     (case llm_features L (Some chat) instructions
             (basic_cleaning L df0, [RemovedEmptyRows, RemovedDuplicates, BasicTypeConversion]) of
        ((df, ops), analysis, err) \<Rightarrow>
          \<lparr>cleaned_data = df,
           report = \<lparr>original_rows = nrows df0,
                    original_columns = ncols df0,
                    operations_performed = ops,
                    data_quality_score_before = calculate_quality_score L df0,
                    issues_found = detect_issues L df0,
                    column_analysis = analysis,
                    llm_error = err,
                    final_rows = nrows df,
                    final_columns = ncols df,
                    data_quality_score_after = calculate_quality_score L df,
                    rows_removed = int (nrows df0) - int (nrows df)\<rparr>\<rparr>)"
  by (simp add: clean_data_def basic_cleaning_def Let_def split: prod.splits)

lemma clean_data_basic:
  "basic_only \<or> groq_client = None \<Longrightarrow>
   clean_data L groq_client df0 instructions basic_only =
     \<lparr>cleaned_data = basic_cleaning L df0,
      report = \<lparr>original_rows = nrows df0,
               original_columns = ncols df0,
               operations_performed = [RemovedEmptyRows, RemovedDuplicates, BasicTypeConversion],
               data_quality_score_before = calculate_quality_score L df0,
               issues_found = detect_issues L df0,
               column_analysis = None,
               llm_error = None,
               final_rows = nrows (basic_cleaning L df0),
               final_columns = ncols (basic_cleaning L df0),
               data_quality_score_after = calculate_quality_score L (basic_cleaning L df0),
               rows_removed = int (nrows df0) - int (nrows (basic_cleaning L df0))\<rparr>\<rparr>"
  by (auto simp add: clean_data_def basic_cleaning_def Let_def)

lemma bc_one_number: "basic_cleaning L one_number = one_number"
  by (simp add: basic_cleaning_def basic_type_conversion_def one_number_def ncols_def
      convert_column_def column_dtype_def remove_empty_rows_def remove_duplicates_def df_empty_def
      nrows_def duplicated_def)

lemma an_one_number: "analyze_columns_with_llm L (Some chat) one_number = []"
  by (simp add: analyze_columns_with_llm_def one_number_def ncols_def analyze_column_def
      column_dtype_def)

text \<open>
  C1 (as the code has it). When the table has come through the column cleaners without
  an exception and the snippet generated for a non-empty instruction contains a
  deny-listed word in any case, the interpreter returns the table as it is and no error
  is recorded; but \<open>clean_data\<close> cannot tell a rejected snippet from an executed one,
  and appends the line \<open>Applied custom instructions\<close> to the report all the same.
\<close>

theorem rejected_snippet:
  assumes st: "clean_columns L (analyze_columns_with_llm L (Some chat) (basic_cleaning L df0))
             (basic_cleaning L df0, [RemovedEmptyRows, RemovedDuplicates, BasicTypeConversion])
           = ((df, ops), None)"
    and ins: "instructions \<noteq> []"
    and reply: "chat (CodePrompt (nrows df) (map fst (columns df)) instructions) = Inr content"
    and gate: "is_dangerous L (py_strip content)"
  shows "apply_user_instructions L (Some chat) df instructions = df
     \<and> cleaned_data (clean_data L (Some chat) df0 instructions False) = df
     \<and> llm_error (report (clean_data L (Some chat) df0 instructions False)) = None
     \<and> operations_performed (report (clean_data L (Some chat) df0 instructions False))
         = ops @ [AppliedCustomInstructions instructions]"
proof -
  have a: "apply_user_instructions L (Some chat) df instructions = df"
    using reply gate by (simp add: apply_user_instructions_def)
  have "llm_features L (Some chat) instructions
          (basic_cleaning L df0, [RemovedEmptyRows, RemovedDuplicates, BasicTypeConversion])
        = ((df, ops @ [AppliedCustomInstructions instructions]),
           Some (analyze_columns_with_llm L (Some chat) (basic_cleaning L df0)), None)"
    using st ins a by (simp add: llm_features_def)
  then show ?thesis using a by (simp add: clean_data_enhanced)
qed

theorem rejected_snippet_witness:
  "is_dangerous plain_lib (py_strip (ustr ''import os''))
   \<and> cleaned_data (clean_data plain_lib (Some import_snippet) one_number (ustr ''drop it'') False)
       = one_number
   \<and> operations_performed
        (report (clean_data plain_lib (Some import_snippet) one_number (ustr ''drop it'') False))
       = [RemovedEmptyRows, RemovedDuplicates, BasicTypeConversion,
          AppliedCustomInstructions (ustr ''drop it'')]"
proof -
  have g: "is_dangerous plain_lib (py_strip (ustr ''import os''))"
    by (simp add: is_dangerous_def dangerous_def py_strip_def py_isspace_def py_lower_def
        is_ascii_def ascii_lower_def ustr_def)
  have st: "clean_columns plain_lib
               (analyze_columns_with_llm plain_lib (Some import_snippet) (basic_cleaning plain_lib one_number))
               (basic_cleaning plain_lib one_number,
                [RemovedEmptyRows, RemovedDuplicates, BasicTypeConversion])
             = ((one_number, [RemovedEmptyRows, RemovedDuplicates, BasicTypeConversion]), None)"
    by (simp add: bc_one_number an_one_number)
  have ins: "ustr ''drop it'' \<noteq> []" by (simp add: ustr_def)
  have reply: "import_snippet (CodePrompt (nrows one_number) (map fst (columns one_number)) (ustr ''drop it''))
      = Inr (ustr ''import os'')"
    by (simp add: import_snippet_def)
  show ?thesis
    using rejected_snippet [OF st ins reply g] g by simp
qed

text \<open>
  The claim that no such line is added fails for the table with the single number 1, the
  instruction \<open>drop it\<close> and the service that answers \<open>import os\<close>.
\<close>

theorem rejected_snippet_counterexample:
  "is_dangerous plain_lib (py_strip (ustr ''import os''))
   \<and> AppliedCustomInstructions (ustr ''drop it'')
       \<in> set (operations_performed
                (report (clean_data plain_lib (Some import_snippet) one_number (ustr ''drop it'') False)))"
  by (simp add: clean_data_enhanced llm_features_def bc_one_number an_one_number
      is_dangerous_def dangerous_def py_strip_def py_isspace_def py_lower_def
      is_ascii_def ascii_lower_def ustr_def)

section \<open>Properties of the column classifier\<close>

lemma analyze_column_alt:
  "analyze_column L chat df i acc =
     (if classified df i then AList.update (column_name df i) (label_of L chat df i) acc else acc)"
  by (simp add: analyze_column_def classified_def label_of_def Let_def split: sum.splits)

lemma set_update_subset: "set (AList.update k v al) \<subseteq> insert (k, v) (set al)"
  by (induction al) auto

lemma analyze_fold_members:
  "(col, label) \<in> set (fold (analyze_column L chat df) js acc) \<Longrightarrow>
   (col, label) \<in> set acc
   \<or> (\<exists>i \<in> set js. classified df i \<and> col = column_name df i \<and> label = label_of L chat df i)"
proof (induction js arbitrary: acc)
  case Nil
  then show ?case by simp
next
  case (Cons j js)
  from Cons.IH [OF Cons.prems [simplified]]
  show ?case using set_update_subset [of "column_name df j" "label_of L chat df j" acc]
    by (auto simp: analyze_column_alt split: if_splits)
qed

lemma analyze_fold_lookup:
  assumes d: "distinct (map fst (columns df))"
  shows "n \<le> ncols df \<Longrightarrow> i < n \<Longrightarrow> classified df i \<Longrightarrow>
     map_of (fold (analyze_column L chat df) [0..<n] []) (column_name df i) = Some (label_of L chat df i)"
proof (induction n)
  case 0
  then show ?case by simp
next
  case (Suc n)
  show ?case
  proof (cases "i = n")
    case True
    with Suc.prems show ?thesis by (simp add: analyze_column_alt update_conv')
  next
    case False
    with Suc.prems have i: "i < n" by simp
    have "column_name df n \<noteq> column_name df i"
      using d Suc.prems i
      by (simp add: column_name_def ncols_def distinct_conv_nth)
    then show ?thesis using Suc.IH [OF _ i] Suc.prems
      by (simp add: analyze_column_alt update_conv')
  qed
qed

text \<open>
  C3 (as the code has it). The classifier is a total function: it never raises. Every
  entry of its result belongs to a text column of the table; its label is \<open>text\<close>
  when the service call for that column failed, and otherwise whatever the service
  answered, stripped and in lower case, with no check against the eight labels. In a
  well-formed table, a text column with a value whose service call fails is labelled
  \<open>text\<close>.
\<close>

theorem classifier_labels:
  "(\<forall>(col, label) \<in> set (analyze_columns_with_llm L groq_client df).
      \<exists>chat i. groq_client = Some chat \<and> i < ncols df \<and> column_dtype df i = Object
        \<and> col = column_name df i
        \<and> (case chat (ColumnPrompt col (take 3 (notna (column_cells df i)))) of
              Inl e \<Rightarrow> label = ustr ''text''
            | Inr content \<Rightarrow> label = py_lower L (py_strip content)))
   \<and> (\<forall>chat i e. groq_client = Some chat \<and> well_formed df \<and> i < ncols df
        \<and> column_dtype df i = Object \<and> notna (column_cells df i) \<noteq> []
        \<and> chat (ColumnPrompt (column_name df i) (take 3 (notna (column_cells df i)))) = Inl e
        \<longrightarrow> map_of (analyze_columns_with_llm L groq_client df) (column_name df i) = Some (ustr ''text''))"
proof (intro conjI ballI allI impI)
  fix x assume x: "x \<in> set (analyze_columns_with_llm L groq_client df)"
  obtain col label where xc: "x = (col, label)" by (cases x)
  show "case x of (col, label) \<Rightarrow>
      \<exists>chat i. groq_client = Some chat \<and> i < ncols df \<and> column_dtype df i = Object
        \<and> col = column_name df i
        \<and> (case chat (ColumnPrompt col (take 3 (notna (column_cells df i)))) of
              Inl e \<Rightarrow> label = ustr ''text''
            | Inr content \<Rightarrow> label = py_lower L (py_strip content))"
  proof (cases groq_client)
    case None
    with x show ?thesis by (simp add: analyze_columns_with_llm_def)
  next
    case (Some chat)
    with x xc have "(col, label) \<in> set (fold (analyze_column L chat df) [0..<ncols df] [])"
      by (simp add: analyze_columns_with_llm_def)
    from analyze_fold_members [OF this]
    obtain i where i: "i < ncols df" "classified df i" "col = column_name df i"
       "label = label_of L chat df i" by auto
    then show ?thesis using Some xc
      by (auto simp: classified_def label_of_def split: sum.splits)
  qed
next
  fix chat i e
  assume a: "groq_client = Some chat \<and> well_formed df \<and> i < ncols df
        \<and> column_dtype df i = Object \<and> notna (column_cells df i) \<noteq> []
        \<and> chat (ColumnPrompt (column_name df i) (take 3 (notna (column_cells df i)))) = Inl e"
  then have "map_of (fold (analyze_column L chat df) [0..<ncols df] []) (column_name df i)
      = Some (label_of L chat df i)"
    by (intro analyze_fold_lookup) (simp_all add: well_formed_def classified_def)
  with a show "map_of (analyze_columns_with_llm L groq_client df) (column_name df i) = Some (ustr ''text'')"
    by (simp add: analyze_columns_with_llm_def label_of_def)
qed

lemma one_text_facts: "ncols one_text = 1" "column_dtype one_text 0 = Object" "column_name one_text 0 = ustr ''a''"
    "notna (column_cells one_text 0) = [Str (ustr ''x@y.z'')]" "classified one_text 0"
    by (simp_all add: one_text_def ncols_def column_dtype_def column_name_def column_cells_def notna_def classified_def)

theorem classifier_labels_witness:
  "well_formed one_text
   \<and> map_of (analyze_columns_with_llm plain_lib (Some unreachable) one_text) (ustr ''a'')
       = Some (ustr ''text'')"
proof -
  have wf: "well_formed one_text"
    by (simp add: well_formed_def one_text_def ncols_def)
  have f: "unreachable (ColumnPrompt (column_name one_text 0) (take 3 (notna (column_cells one_text 0))))
      = Inl (ServiceError (ustr ''connection refused''))"
    by (simp add: unreachable_def)
  have n: "notna (column_cells one_text 0) \<noteq> []"
    by (simp add: one_text_facts)
  have "map_of (analyze_columns_with_llm plain_lib (Some unreachable) one_text) (column_name one_text 0)
      = Some (ustr ''text'')"
    by (rule classifier_labels [of plain_lib "Some unreachable" one_text, THEN conjunct2, rule_format,
          of unreachable 0 "ServiceError (ustr ''connection refused'')"])
       (simp add: wf n f one_text_facts(1,2))
  then show ?thesis using wf by (simp add: one_text_facts(3))
qed

text \<open>
  The claim that every label lies in the closed set fails for the table with the single
  text column \<open>a\<close> and the service that answers \<open>Number\<close>: the column is labelled
  \<open>number\<close>.
\<close>

theorem classifier_labels_counterexample:
  "analyze_columns_with_llm plain_lib (Some number_reply) one_text = [(ustr ''a'', ustr ''number'')]
   \<and> ustr ''number'' \<notin> set labels"
proof -
  have "label_of plain_lib number_reply one_text 0 = ustr ''number''"
    by (simp add: label_of_def number_reply_def py_strip_def py_isspace_def py_lower_def is_ascii_def
        ascii_lower_def ustr_def)
  then have "analyze_columns_with_llm plain_lib (Some number_reply) one_text
      = [(ustr ''a'', ustr ''number'')]"
    by (simp add: analyze_columns_with_llm_def analyze_column_alt one_text_facts)
  moreover have "ustr ''number'' \<notin> set labels"
    by (simp add: labels_def ustr_def)
  ultimately show ?thesis by simp
qed

end
